theory Spec2Isabelle
  imports Complex_Main "HOL-Library.AList"
begin

section \<open>The dfencoder autoencoder engine (morpheus/models/dfencoder/autoencoder.py)\<close>

text \<open>
  A shallow embedding of the \<open>AutoEncoder\<close> class. Python exceptions are values of
  \<open>error\<close>; a method that can raise returns \<open>error + 'a\<close>, and a method that
  mutates \<open>self\<close> returns the error (if any) together with the object as the exception
  left it. Floating-point numbers are idealised as reals. The trainable network, the
  torch criteria, the pandas primitives and the scaler classes are collaborators outside
  this file: they appear as parameters or as small definitions of their documented
  behaviour.
\<close>

subsection \<open>Exceptions\<close>

text \<open>
  The exception classes the modelled code can raise. \<open>ConfigurationError\<close> is the class
  the design document names for missing initialisation data; no statement of the source
  raises it.
\<close>

datatype error =
    KeyError
  | ValueError
  | TypeError
  | IndexError
  | RuntimeError
  | ZeroDivisionError
  | AttributeError
  | UnboundLocalError
  | ConfigurationError

subsection \<open>Scaler lookup\<close>

datatype scaler_class = StandardScaler | GaussRankScaler | ModifiedScaler | NullScaler

text \<open>
  The dict literal of \<open>_get_scaler\<close>. A scaler name is a Python string or \<open>None\<close>,
  so the key type is \<open>string option\<close>.
\<close>

definition scalers :: "(string option \<times> scaler_class) list" where
  "scalers =
     [(Some ''standard'', StandardScaler),
      (Some ''gauss_rank'', GaussRankScaler),
      (Some ''modified'', ModifiedScaler),
      (None, NullScaler),
      (Some ''none'', NullScaler)]"

definition get_scaler :: "string option \<Rightarrow> error + scaler_class" where
  "get_scaler name =
     (case map_of scalers name of
        None \<Rightarrow> Inl KeyError
      | Some c \<Rightarrow> Inr c)"

subsection \<open>Tabular data\<close>

text \<open>
  A dataframe cell is missing (\<open>NaN\<close>/\<open>None\<close>), a bool, a number or a string. A
  dataframe is row-oriented: \<open>len(df)\<close> is the number of rows and \<open>df.iloc[a:b]\<close> slices
  the rows. Cells compare structurally.
\<close>

datatype cell = CNone | CBool bool | CNum real | CStr string

datatype dtype = DNum | DBool | DObject

record dataframe =
  columns :: "(string \<times> dtype) list"
  rows :: "cell list list"


text \<open>\<open>df.select_dtypes(include=...).columns\<close>\<close>

definition select_dtypes :: "dtype \<Rightarrow> dataframe \<Rightarrow> string list" where
  "select_dtypes t df = map fst (filter (\<lambda>c. snd c = t) (columns df))"

fun index_of :: "'a \<Rightarrow> 'a list \<Rightarrow> nat option" where
  "index_of x [] = None"
| "index_of x (y # ys) = (if x = y then Some 0 else map_option Suc (index_of x ys))"

definition cell_at :: "cell list \<Rightarrow> nat \<Rightarrow> cell" where
  "cell_at r j = (if j < length r then r ! j else CNone)"

text \<open>\<open>df[ft]\<close>: the values of one column, \<open>KeyError\<close> for an unknown name.\<close>

definition column :: "dataframe \<Rightarrow> string \<Rightarrow> error + cell list" where
  "column df ft =
     (case index_of ft (map fst (columns df)) of
        None \<Rightarrow> Inl KeyError
      | Some j \<Rightarrow> Inr (map (\<lambda>r. cell_at r j) (rows df)))"


subsection \<open>The feature registry and the engine object\<close>

text \<open>
  A fitted numeric scaler is its class together with either the sample it was fit on or
  the attributes a preset installed with \<open>setattr\<close>.
\<close>

datatype scaler_obj =
    FitOn scaler_class "real list"
  | WithAttrs scaler_class "(string \<times> real) list"

record numeric_feature =
  mean :: "real option"
  std :: "real option"
  scaler :: scaler_obj

text \<open>
  A binary feature is the dict \<open>{'cats': [...], label: bool, ...}\<close>: the list under the
  key \<open>'cats'\<close> and the label keys with their boolean codes.
\<close>

record binary_feature =
  bcats :: "cell list"
  codes :: "(cell \<times> bool) list"

text \<open>A categorical feature is the dict \<open>{'cats': [...]}\<close>.\<close>

type_synonym categorical_feature = "cell list"

record scaler_params =
  scaler_type :: "string option option"
  scaler_attr_dict :: "(string \<times> real) list"
  p_mean :: real
  p_std :: real

datatype scaler_arg =
    ScalerStr string
  | ScalerDict "(string \<times> string option) list"
  | ScalerOther

datatype optimizer_obj = Adam | SGD

datatype logger_obj =
    NoLogger
  | LoggerName string
  | BasicLogger "string list"
  | IpynbLogger "string list"
  | TensorboardXLogger "string list"

datatype lr_decay_obj = DecayRate real | ExponentialLR real

text \<open>The part of the wrapped network (\<open>self.model\<close>) that \<open>_build_model\<close> writes.\<close>

record ae_module =
  built :: bool
  ddp_params_and_buffers_to_ignore :: "string list option"
  ddp_rank :: "int option"

record autoencoder =
  numeric_fts :: "(string \<times> numeric_feature) list"
  binary_fts :: "(string \<times> binary_feature) list"
  categorical_fts :: "(string \<times> categorical_feature) list"
  feature_loss_stats :: "(string \<times> scaler_class \<times> real list) list"
  distributed_training :: bool
  model :: ae_module
  optimizer :: string
  optim :: "optimizer_obj option"
  lr_decay :: "lr_decay_obj option"
  min_cats :: int
  preset_cats :: "(string \<times> categorical_feature) list option"
  preset_numerical_scaler_params :: "(string \<times> scaler_params) list option"
  batch_size :: int
  eval_batch_size :: int
  num_names :: "string list"
  bin_names :: "string list option"
  logger :: logger_obj
  scaler_cfg :: scaler_arg
  patience :: "int option"
  loss_scaler_str :: "string option"
  loss_scaler :: scaler_class

text \<open>The keyword arguments of \<open>AutoEncoder.__init__\<close> that the modelled methods read.\<close>

record init_args =
  a_min_cats :: int
  a_batch_size :: int
  a_eval_batch_size :: int
  a_optimizer :: string
  a_lr_decay :: "real option"
  a_distributed_training :: bool
  a_logger :: "string option"
  a_scaler :: scaler_arg
  a_patience :: "int option"
  a_preset_cats :: "(string \<times> categorical_feature) list option"
  a_preset_numerical_scaler_params :: "(string \<times> scaler_params) list option"
  a_binary_feature_list :: "string list option"
  a_loss_scaler :: "string option"

definition default_args :: init_args where
  "default_args =
     \<lparr>a_min_cats = 10, a_batch_size = 256, a_eval_batch_size = 1024,
      a_optimizer = ''adam'', a_lr_decay = None, a_distributed_training = False,
      a_logger = Some ''basic'', a_scaler = ScalerStr ''standard'', a_patience = Some 5,
      a_preset_cats = None, a_preset_numerical_scaler_params = None,
      a_binary_feature_list = None, a_loss_scaler = Some ''standard''\<rparr>"

text \<open>
  \<open>AutoEncoder.__init__\<close>: every field is stored, and the last statement looks the loss
  scaler up, so an unknown name makes the constructor raise.
\<close>

definition AutoEncoder_init :: "init_args \<Rightarrow> error + autoencoder" where
  "AutoEncoder_init a =
     (case get_scaler (a_loss_scaler a) of
        Inl e \<Rightarrow> Inl e
      | Inr cls \<Rightarrow>
          Inr \<lparr>numeric_fts = [], binary_fts = [], categorical_fts = [],
               feature_loss_stats = [],
               distributed_training = a_distributed_training a,
               model = \<lparr>built = False, ddp_params_and_buffers_to_ignore = None,
                        ddp_rank = None\<rparr>,
               optimizer = a_optimizer a, optim = None,
               lr_decay = map_option DecayRate (a_lr_decay a),
               min_cats = a_min_cats a,
               preset_cats = a_preset_cats a,
               preset_numerical_scaler_params = a_preset_numerical_scaler_params a,
               batch_size = a_batch_size a, eval_batch_size = a_eval_batch_size a,
               num_names = [], bin_names = a_binary_feature_list a,
               logger = (case a_logger a of None \<Rightarrow> NoLogger | Some n \<Rightarrow> LoggerName n), scaler_cfg = a_scaler a,
               patience = a_patience a,
               loss_scaler_str = a_loss_scaler a, loss_scaler = cls\<rparr>)"


subsection \<open>Feature initialisation\<close>

text \<open>
  A method that mutates \<open>self\<close> and returns nothing maps the object to the exception it
  raised (if any) and the object as it stands afterwards. \<open>seq\<close> is statement
  sequencing: the second statement runs only when the first did not raise.
\<close>

type_synonym stmt = "autoencoder \<Rightarrow> error option \<times> autoencoder"

definition seq :: "stmt \<Rightarrow> stmt \<Rightarrow> stmt" where
  "seq f g s = (case f s of (Some e, s') \<Rightarrow> (Some e, s') | (None, s') \<Rightarrow> g s')"

definition raise :: "error \<Rightarrow> stmt" where
  "raise e s = (Some e, s)"

text \<open>
  \<open>Series.value_counts()\<close>: the distinct non-missing values with their counts, most
  frequent first (ties in order of first appearance).
\<close>

definition value_counts :: "cell list \<Rightarrow> (cell \<times> nat) list" where
  "value_counts vs =
     (let nn = filter (\<lambda>v. v \<noteq> CNone) vs
      in sort_key (\<lambda>p. - int (snd p))
           (map (\<lambda>v. (v, count_list nn v)) (rev (remdups (rev nn)))))"

text \<open>\<open>list(vl[vl >= self.min_cats].index)\<close>\<close>

definition frequent_cats :: "int \<Rightarrow> cell list \<Rightarrow> cell list" where
  "frequent_cats m vs = map fst (filter (\<lambda>p. m \<le> int (snd p)) (value_counts vs))"

fun init_cats_loop :: "dataframe \<Rightarrow> string list \<Rightarrow> stmt" where
  "init_cats_loop df [] s = (None, s)"
| "init_cats_loop df (ft # fts) s =
     (case column df ft of
        Inl e \<Rightarrow> (Some e, s)
      | Inr vs \<Rightarrow>
          init_cats_loop df fts
            (s\<lparr>categorical_fts :=
                 AList.update ft (frequent_cats (min_cats s) vs) (categorical_fts s)\<rparr>))"

definition init_cats :: "dataframe option \<Rightarrow> stmt" where
  "init_cats df s =
     (case df of
        None \<Rightarrow> (Some AttributeError, s)
      | Some d \<Rightarrow> init_cats_loop d (select_dtypes DObject d) s)"

text \<open>The numbers of a column, missing values dropped.\<close>

fun nums :: "cell list \<Rightarrow> real list" where
  "nums [] = []"
| "nums (CNum x # cs) = x # nums cs"
| "nums (c # cs) = nums cs"

text \<open>\<open>Series.mean()\<close> and \<open>Series.std()\<close> (sample deviation); \<open>None\<close> is \<open>NaN\<close>.\<close>

definition series_mean :: "cell list \<Rightarrow> real option" where
  "series_mean vs =
     (let xs = nums vs
      in if xs = [] then None else Some (sum_list xs / real (length xs)))"

definition series_std :: "cell list \<Rightarrow> real option" where
  "series_std vs =
     (let xs = nums vs; n = length xs; m = sum_list xs / real n
      in if n < 2 then None
         else Some (sqrt (sum_list (map (\<lambda>x. (x - m)\<^sup>2) xs) / real (n - 1))))"

fun init_numeric_preset_loop :: "(string \<times> scaler_params) list \<Rightarrow> stmt" where
  "init_numeric_preset_loop [] s = (None, s)"
| "init_numeric_preset_loop ((ft, sp) # rest) s =
     (case get_scaler (case scaler_type sp of None \<Rightarrow> Some ''gauss_rank'' | Some n \<Rightarrow> n) of
        Inl e \<Rightarrow> (Some e, s)
      | Inr cls \<Rightarrow>
          init_numeric_preset_loop rest
            (s\<lparr>numeric_fts :=
                 AList.update ft
                   \<lparr>mean = Some (p_mean sp), std = Some (p_std sp),
                    scaler = WithAttrs cls (scaler_attr_dict sp)\<rparr>
                   (numeric_fts s)\<rparr>))"

text \<open>
  \<open>scalers.get(ft, "gauss_rank")\<close>, where \<open>scalers\<close> is bound only when
  \<open>self.scaler\<close> is a string or a dict.
\<close>

definition scaler_name_for :: "scaler_arg \<Rightarrow> string \<Rightarrow> error + string option" where
  "scaler_name_for sc ft =
     (case sc of
        ScalerStr n \<Rightarrow> Inr (Some n)
      | ScalerDict d \<Rightarrow>
          (case map_of d ft of None \<Rightarrow> Inr (Some ''gauss_rank'') | Some n \<Rightarrow> Inr n)
      | ScalerOther \<Rightarrow> Inl UnboundLocalError)"

fun init_numeric_df_loop :: "dataframe \<Rightarrow> string list \<Rightarrow> stmt" where
  "init_numeric_df_loop df [] s = (None, s)"
| "init_numeric_df_loop df (ft # fts) s =
     (case scaler_name_for (scaler_cfg s) ft of
        Inl e \<Rightarrow> (Some e, s)
      | Inr name \<Rightarrow>
          (case get_scaler name of
             Inl e \<Rightarrow> (Some e, s)
           | Inr cls \<Rightarrow>
               (case column df ft of
                  Inl e \<Rightarrow> (Some e, s)
                | Inr vs \<Rightarrow>
                    init_numeric_df_loop df fts
                      (s\<lparr>numeric_fts :=
                           AList.update ft
                             \<lparr>mean = series_mean vs, std = series_std vs,
                              scaler = FitOn cls (nums vs)\<rparr>
                             (numeric_fts s)\<rparr>))))"

definition set_num_names :: stmt where
  "set_num_names s = (None, s\<lparr>num_names := map fst (numeric_fts s)\<rparr>)"

definition init_numeric :: "dataframe option \<Rightarrow> stmt" where
  "init_numeric df s =
     (if df = None \<and> preset_numerical_scaler_params s = None then (Some ValueError, s)
      else
        seq (case preset_numerical_scaler_params s of
               Some (p # ps) \<Rightarrow> init_numeric_preset_loop (p # ps)
             | _ \<Rightarrow>
                 (case df of
                    None \<Rightarrow> raise AttributeError
                  | Some d \<Rightarrow> init_numeric_df_loop d (select_dtypes DNum d)))
            set_num_names s)"

text \<open>
  \<open>for i, cat in enumerate(feature['cats']): feature[cat] = bool(i)\<close>, run over the
  binary features already registered.
\<close>

definition recode :: "binary_feature \<Rightarrow> binary_feature" where
  "recode f =
     f\<lparr>codes := fold (\<lambda>(i, cat) m. AList.update cat (i \<noteq> 0) m)
                  (enumerate 0 (bcats f)) (codes f)\<rparr>"

text \<open>The feature dict written for every name of \<open>binaries\<close>.\<close>

definition new_binary_feature :: binary_feature where
  "new_binary_feature =
     \<lparr>bcats = [CBool True, CBool False],
      codes = [(CBool True, True), (CBool False, False)]\<rparr>"

definition init_binary :: "dataframe option \<Rightarrow> stmt" where
  "init_binary df s =
     (if df = None \<and> bin_names s = None then (Some ValueError, s)
      else
        (case (case bin_names s of
                 Some bs \<Rightarrow> Inr bs
               | None \<Rightarrow>
                   (case df of
                      None \<Rightarrow> Inl AttributeError
                    | Some d \<Rightarrow> Inr (select_dtypes DBool d))) of
           Inl e \<Rightarrow> (Some e, s)
         | Inr binaries \<Rightarrow>
             (None,
              s\<lparr>bin_names := Some binaries,
                binary_fts :=
                  fold (\<lambda>ft m. AList.update ft new_binary_feature m) binaries
                    (map (\<lambda>(ft, f). (ft, recode f)) (binary_fts s))\<rparr>)))"

definition init_features :: "dataframe option \<Rightarrow> stmt" where
  "init_features df s =
     (if df = None \<and>
         (preset_cats s = None \<or> bin_names s = None \<or>
          preset_numerical_scaler_params s = None)
      then (Some ValueError, s)
      else
        seq (case preset_cats s of
               Some pc \<Rightarrow> (\<lambda>s. (None, s\<lparr>categorical_fts := pc\<rparr>))
             | None \<Rightarrow> init_cats df)
          (seq (init_numeric df) (init_binary df)) s)"

subsection \<open>Preparing a dataframe (\<open>prepare_df\<close>, \<open>compute_targets\<close>)\<close>

text \<open>The binary loop of \<open>prepare_df\<close>: \<open>df[ft].apply(lambda x: feature.get(x, False))\<close>.\<close>

definition feature_get :: "binary_feature \<Rightarrow> cell \<Rightarrow> bool" where
  "feature_get f x = (case map_of (codes f) x of None \<Rightarrow> False | Some b \<Rightarrow> b)"

definition prepare_df_binary :: "binary_feature \<Rightarrow> cell list \<Rightarrow> bool list" where
  "prepare_df_binary f vs = map (feature_get f) vs"

text \<open>The reserved sentinel category.\<close>

definition other :: cell where
  "other = CStr ''_other''"





text \<open>The binary targets of \<open>compute_targets\<close>: \<open>astype(int)\<close>, then \<open>float()\<close>.\<close>

definition bin_target_of :: "bool \<Rightarrow> real" where
  "bin_target_of b = (if b then 1 else 0)"

subsection \<open>Decoding model outputs (\<open>_decode_outputs_to_df\<close>)\<close>

text \<open>\<open>round\<close> on a pandas column rounds half to even; \<open>astype(bool)\<close> tests for non-zero.\<close>

definition round_half_even :: "real \<Rightarrow> int" where
  "round_half_even x =
     (let f = \<lfloor>x\<rfloor>; d = x - of_int f
      in if d < 1 / 2 then f
         else if 1 / 2 < d then f + 1
         else if even f then f else f + 1)"

definition round_to_bool :: "real \<Rightarrow> bool" where
  "round_to_bool x = (round_half_even x \<noteq> 0)"

text \<open>
  The binary loop for one feature:
  \<open>map = {False: feature['cats'][0], True: feature['cats'][1]}\<close>, applied to the rounded
  outputs.
\<close>

definition decode_binary :: "binary_feature \<Rightarrow> real list \<Rightarrow> error + cell list" where
  "decode_binary f outs =
     (case bcats f of
        c0 # c1 # _ \<Rightarrow> Inr (map (\<lambda>x. if round_to_bool x then c1 else c0) outs)
      | _ \<Rightarrow> Inl IndexError)"

text \<open>
  \<open>torch.argmax\<close> along a row: the first position of the largest entry; torch raises on
  an empty row.
\<close>

fun argmax_from :: "nat \<Rightarrow> real \<Rightarrow> nat \<Rightarrow> real list \<Rightarrow> nat" where
  "argmax_from best bv i [] = best"
| "argmax_from best bv i (x # xs) =
     (if bv < x then argmax_from i x (Suc i) xs else argmax_from best bv (Suc i) xs)"

definition argmax :: "real list \<Rightarrow> error + nat" where
  "argmax xs = (case xs of [] \<Rightarrow> Inl IndexError | x # r \<Rightarrow> Inr (argmax_from 0 x 1 r))"

text \<open>Python list indexing with a non-negative index.\<close>

definition list_get :: "'a list \<Rightarrow> nat \<Rightarrow> error + 'a" where
  "list_get xs i = (if i < length xs then Inr (xs ! i) else Inl IndexError)"

text \<open>
  The categorical loop for one feature, one row of logits at a time: the code chosen by
  the arg-max (over all but the last logit when the feature has categories), then the
  label \<open>(feature['cats'] + ["_other"])[code]\<close>.
\<close>

definition decode_code :: "categorical_feature \<Rightarrow> real list \<Rightarrow> error + nat" where
  "decode_code cats logits =
     (if length cats > 0 then argmax (butlast logits) else argmax logits)"

definition decode_label :: "categorical_feature \<Rightarrow> real list \<Rightarrow> error + cell" where
  "decode_label cats logits =
     (case decode_code cats logits of
        Inl e \<Rightarrow> Inl e
      | Inr x \<Rightarrow> list_get (cats @ [other]) x)"

fun collect :: "(error + 'a) list \<Rightarrow> error + 'a list" where
  "collect [] = Inr []"
| "collect (Inl e # rs) = Inl e"
| "collect (Inr x # rs) = (case collect rs of Inl e \<Rightarrow> Inl e | Inr xs \<Rightarrow> Inr (x # xs))"

definition decode_categorical ::
  "categorical_feature \<Rightarrow> real list list \<Rightarrow> error + cell list" where
  "decode_categorical cats logit_rows = collect (map (decode_label cats) logit_rows)"

subsection \<open>Loss composition (\<open>_compute_loss_from_targets\<close>, \<open>_do_backward\<close>)\<close>

text \<open>
  A float is a real or \<open>NaN\<close> (\<open>None\<close>). A two-dimensional tensor knows its number of
  columns and holds its rows; torch tensors are rectangular.
\<close>

type_synonym float = "real option"

record tensor2 =
  ncols :: nat
  trows :: "real list list"

definition rectangular :: "tensor2 \<Rightarrow> bool" where
  "rectangular t = list_all (\<lambda>r. length r = ncols t) (trows t)"

definition fadd :: "float \<Rightarrow> float \<Rightarrow> float" where
  "fadd a b = (case a of None \<Rightarrow> None | Some x \<Rightarrow> (case b of None \<Rightarrow> None | Some y \<Rightarrow> Some (x + y)))"

text \<open>The mean of the entries of a tensor; \<open>NaN\<close> for an empty one.\<close>

definition mean_of :: "real list \<Rightarrow> float" where
  "mean_of xs = (if xs = [] then None else Some (sum_list xs / real (length xs)))"

text \<open>\<open>t.mean()\<close> and \<open>t.mean(dim=0)\<close>\<close>

definition tensor_mean :: "tensor2 \<Rightarrow> float" where
  "tensor_mean t = mean_of (concat (trows t))"

definition column_of :: "tensor2 \<Rightarrow> nat \<Rightarrow> real list" where
  "column_of t j = map (\<lambda>r. r ! j) (trows t)"

definition mean_dim0 :: "tensor2 \<Rightarrow> float list" where
  "mean_dim0 t = map (\<lambda>j. mean_of (column_of t j)) [0..<ncols t]"

text \<open>\<open>np.array(xs).mean()\<close> of a list of floats.\<close>

definition np_mean :: "float list \<Rightarrow> float" where
  "np_mean xs =
     (if xs = [] \<or> None \<in> set xs then None
      else Some (sum_list (map the xs) / real (length xs)))"

text \<open>
  The three torch criteria built with \<open>reduction='none'\<close> (\<open>self.mse\<close>, \<open>self.bce\<close>,
  \<open>self.cce\<close>): element-wise losses for the numeric and binary heads, one loss per row
  for a categorical head.
\<close>

record criteria =
  mse :: "tensor2 \<Rightarrow> tensor2 \<Rightarrow> tensor2"
  bce :: "tensor2 \<Rightarrow> tensor2 \<Rightarrow> tensor2"
  cce :: "tensor2 \<Rightarrow> int list \<Rightarrow> real list"

datatype log_event =
    TrainingStep "float list"
  | IdValStep "float list"
  | ValStep "float list"

text \<open>
  The loop \<open>for i, ft in enumerate(self.categorical_fts)\<close>: the mean loss of each
  categorical head, in feature order.
\<close>

fun cce_loop ::
  "criteria \<Rightarrow> tensor2 list \<Rightarrow> int list list \<Rightarrow> nat list \<Rightarrow> error + float list" where
  "cce_loop c cat cat_target [] = Inr []"
| "cce_loop c cat cat_target (i # rest) =
     (if i < length cat \<and> i < length cat_target
      then (case cce_loop c cat cat_target rest of
              Inl e \<Rightarrow> Inl e
            | Inr ls \<Rightarrow> Inr (mean_of (cce c (cat ! i) (cat_target ! i)) # ls))
      else Inl IndexError)"

text \<open>
  What the logger receives: nothing when logging is off or there is no logger, otherwise
  the step that matches \<open>self.training\<close> and \<open>_id\<close>. A logger that was never built is
  still a string and has no such method.
\<close>

definition log_step ::
  "logger_obj \<Rightarrow> bool \<Rightarrow> bool \<Rightarrow> bool \<Rightarrow> float list \<Rightarrow> error + log_event option" where
  "log_step lg should_log training is_id net_loss =
     (if should_log \<and> lg \<noteq> NoLogger
      then (case lg of
              LoggerName _ \<Rightarrow> Inl AttributeError
            | _ \<Rightarrow>
                Inr (Some (if training then TrainingStep net_loss
                           else if is_id then IdValStep net_loss
                           else ValStep net_loss)))
      else Inr None)"

record losses =
  mse_loss :: float
  bce_loss :: float
  cce_loss :: "float list"
  logged :: "log_event option"
  net_loss :: float

definition compute_loss_from_targets ::
  "autoencoder \<Rightarrow> criteria \<Rightarrow> bool \<Rightarrow> tensor2 \<Rightarrow> tensor2 \<Rightarrow> tensor2 list \<Rightarrow>
   tensor2 \<Rightarrow> tensor2 \<Rightarrow> int list list \<Rightarrow> bool \<Rightarrow> bool \<Rightarrow> error + losses" where
  "compute_loss_from_targets s c training num bin cat num_target bin_target cat_target
       should_log is_id =
     (let m = mse c num num_target;
          b = bce c bin bin_target
      in case cce_loop c cat cat_target [0..<length (categorical_fts s)] of
           Inl e \<Rightarrow> Inl e
         | Inr cs \<Rightarrow>
             (let units = mean_dim0 m @ mean_dim0 b @ cs
              in case log_step (logger s) should_log training is_id units of
                   Inl e \<Rightarrow> Inl e
                 | Inr ev \<Rightarrow>
                     Inr \<lparr>mse_loss = tensor_mean m, bce_loss = tensor_mean b,
                          cce_loss = cs, logged = ev, net_loss = np_mean units\<rparr>))"

text \<open>
  \<open>_do_backward\<close>: the scalar on which \<open>backward()\<close> is called.
\<close>

definition do_backward :: "float \<Rightarrow> float \<Rightarrow> float list \<Rightarrow> float" where
  "do_backward m b cs = fold (\<lambda>ls loss_fn. fadd loss_fn ls) cs (fadd m b)"

text \<open>
  \<open>_fit_batch\<close>, as far as losses go: the forward pass of the network (a collaborator,
  here any function of the corrupted input), the losses with logging on in training mode,
  and the scalar given to the optimiser together with the net loss returned.
\<close>

definition fit_batch ::
  "autoencoder \<Rightarrow> criteria \<Rightarrow> ('x \<Rightarrow> tensor2 \<times> tensor2 \<times> tensor2 list) \<Rightarrow> 'x \<Rightarrow>
   tensor2 \<Rightarrow> tensor2 \<Rightarrow> int list list \<Rightarrow> error + (float \<times> losses)" where
  "fit_batch s c forward input_swapped num_target bin_target cat_target =
     (case forward input_swapped of
        (num, bin, cat) \<Rightarrow>
          (case compute_loss_from_targets s c True num bin cat num_target bin_target
                  cat_target True False of
             Inl e \<Rightarrow> Inl e
           | Inr l \<Rightarrow> Inr (do_backward (mse_loss l) (bce_loss l) (cce_loss l), l)))"

text \<open>
  The per-output-unit losses as reals: the mean of each column of an element-wise loss
  tensor.
\<close>

definition column_means :: "tensor2 \<Rightarrow> real list" where
  "column_means t =
     map (\<lambda>j. sum_list (column_of t j) / real (length (trows t))) [0..<ncols t]"

definition average :: "real list \<Rightarrow> real" where
  "average xs = sum_list xs / real (length xs)"

subsection \<open>Building the model (\<open>_build_model\<close>)\<close>

text \<open>\<open>self.model.build(...)\<close>: the network is a collaborator; only the fact is kept.\<close>

definition model_build :: stmt where
  "model_build s = (None, s\<lparr>model := (model s)\<lparr>built := True\<rparr>\<rparr>)"

text \<open>The distributed branch: the ignore list for empty heads, then the DDP wrapper.\<close>

definition wrap_distributed :: "int option \<Rightarrow> stmt" where
  "wrap_distributed rank s =
     (if distributed_training s
      then (case rank of
              None \<Rightarrow> (Some ValueError, s)
            | Some r \<Rightarrow>
                (None,
                 s\<lparr>model := (model s)
                      \<lparr>ddp_params_and_buffers_to_ignore :=
                         Some ((if length (numeric_fts s) = 0
                                then [''numeric_output.weight''] else []) @
                               (if length (binary_fts s) = 0
                                then [''binary_output.weight''] else [])),
                       ddp_rank := Some r\<rparr>\<rparr>))
      else (None, s))"

definition build_optimizer :: stmt where
  "build_optimizer s =
     (if optimizer s = ''adam'' then (None, s\<lparr>optim := Some Adam\<rparr>)
      else if optimizer s = ''sgd'' then (None, s\<lparr>optim := Some SGD\<rparr>)
      else (Some ValueError, s))"

text \<open>
  \<open>if self.lr_decay is not None: self.lr_decay = ExponentialLR(self.optim, self.lr_decay)\<close>;
  torch refuses a scheduler object as decay rate.
\<close>

definition build_lr_decay :: stmt where
  "build_lr_decay s =
     (case lr_decay s of
        None \<Rightarrow> (None, s)
      | Some (DecayRate g) \<Rightarrow> (None, s\<lparr>lr_decay := Some (ExponentialLR g)\<rparr>)
      | Some (ExponentialLR g) \<Rightarrow> (Some TypeError, s))"

definition build_logger :: stmt where
  "build_logger s =
     (case bin_names s of
        None \<Rightarrow> (Some TypeError, s)
      | Some bs \<Rightarrow>
          (let fts = num_names s @ bs @ map fst (categorical_fts s)
           in (None,
               s\<lparr>logger :=
                    (if logger s = LoggerName ''basic'' then BasicLogger fts
                     else if logger s = LoggerName ''ipynb'' then IpynbLogger fts
                     else if logger s = LoggerName ''tensorboard'' then TensorboardXLogger fts
                     else logger s)\<rparr>)))"

definition build_model :: "dataframe option \<Rightarrow> int option \<Rightarrow> stmt" where
  "build_model df rank =
     seq (init_features df)
       (seq model_build
          (seq (wrap_distributed rank)
             (seq build_optimizer (seq build_lr_decay build_logger))))"

subsection \<open>Training (\<open>fit\<close>, \<open>_fit_data\<close>)\<close>

text \<open>
  The early-stopping variables of \<open>_fit_data\<close>. \<open>last_val_loss\<close> starts at
  \<open>float('inf')\<close>, which is \<open>None\<close> here; validation losses are finite reals.
\<close>

record es_state =
  count_es :: int
  last_val_loss :: "real option"
  should_early_stop :: bool

definition es_init :: es_state where
  "es_init = \<lparr>count_es = 0, last_val_loss = None, should_early_stop = False\<rparr>"

text \<open>Python truthiness of \<open>self.patience\<close> (an integer or \<open>None\<close>).\<close>

definition truthy :: "int option \<Rightarrow> bool" where
  "truthy p = (case p of None \<Rightarrow> False | Some n \<Rightarrow> n \<noteq> 0)"

text \<open>\<open>curr_val_loss > last_val_loss\<close>\<close>

definition loss_went_up :: "real \<Rightarrow> real option \<Rightarrow> bool" where
  "loss_went_up curr_val_loss prev = (case prev of None \<Rightarrow> False | Some l \<Rightarrow> l < curr_val_loss)"

text \<open>The block \<open>if self.patience: ...\<close> that follows each validation.\<close>

definition early_stopping_step :: "int option \<Rightarrow> real \<Rightarrow> es_state \<Rightarrow> es_state" where
  "early_stopping_step pat curr_val_loss es =
     (case pat of
        None \<Rightarrow> es
      | Some p \<Rightarrow>
          if p = 0 then es
          else if loss_went_up curr_val_loss (last_val_loss es)
          then es\<lparr>count_es := count_es es + 1,
                  should_early_stop := (should_early_stop es \<or> p \<le> count_es es + 1),
                  last_val_loss := Some curr_val_loss\<rparr>
          else es\<lparr>count_es := 0, last_val_loss := Some curr_val_loss\<rparr>)"

text \<open>
  What a run of \<open>_fit_data\<close> observes from its collaborators: the validation loss that
  \<open>_validate_dataset\<close> returns after each epoch, the lead process's flag that
  \<open>all_gather_object\<close> delivers to another rank after each epoch, and the per-feature
  losses that the final pass collects (on the validation set or on the training set).
\<close>

record env =
  val_loss_at :: "nat \<Rightarrow> real"
  lead_stop_at :: "nat \<Rightarrow> bool"
  feature_losses_on :: "bool \<Rightarrow> (string \<times> real list) list"

text \<open>
  The loop \<open>for epoch in range(epochs)\<close> with its \<open>break\<close>: the batches are trained
  (inside the network), the lead process validates and updates the early-stopping
  variables, \<open>self.logger.end_epoch()\<close> is called (a logger that is \<open>None\<close> or
  still a name has no such method), the flag is synchronised, and the loop is left when
  the flag is set. The result is the number of epochs run and the final early-stopping
  variables.
\<close>

definition has_end_epoch :: "logger_obj \<Rightarrow> bool" where
  "has_end_epoch lg = (case lg of NoLogger \<Rightarrow> False | LoggerName _ \<Rightarrow> False | _ \<Rightarrow> True)"

fun epoch_loop ::
  "autoencoder \<Rightarrow> env \<Rightarrow> bool \<Rightarrow> bool \<Rightarrow> nat list \<Rightarrow> es_state \<Rightarrow> nat \<Rightarrow>
   error + nat \<times> es_state" where
  "epoch_loop s e is_main_process should_run_validation [] es n = Inr (n, es)"
| "epoch_loop s e is_main_process should_run_validation (epoch # rest) es n =
     (let es' = (if is_main_process \<and> should_run_validation
                 then early_stopping_step (patience s) (val_loss_at e epoch) es
                 else es)
      in if \<not> has_end_epoch (logger s) then Inl AttributeError
         else
           (let should_early_stop_synced =
                  (if distributed_training s \<and> \<not> is_main_process then lead_stop_at e epoch
                   else should_early_stop es')
            in if should_early_stop_synced then Inr (Suc n, es')
               else epoch_loop s e is_main_process should_run_validation rest es' (Suc n)))"

text \<open>\<open>_populate_loss_stats_from_dataset\<close>: one fitted loss scaler per feature.\<close>

definition populate_loss_stats :: "(string \<times> real list) list \<Rightarrow> autoencoder \<Rightarrow> autoencoder" where
  "populate_loss_stats feature_losses s =
     s\<lparr>feature_loss_stats :=
         fold (\<lambda>(ft, l) m. AList.update ft (loss_scaler s, l) m) feature_losses
           (feature_loss_stats s)\<rparr>"

datatype val_data = VDataFrame dataframe | VDataset

record fit_summary =
  epochs_run :: nat
  final_es :: es_state
  warned :: bool

text \<open>
  \<open>_fit_data\<close>: the warning, the epoch loop, and on the lead process the final pass
  that fills the loss statistics (iterating a validation set that is \<open>None\<close> raises).
\<close>

definition fit_data ::
  "env \<Rightarrow> int option \<Rightarrow> int \<Rightarrow> val_data option \<Rightarrow> bool \<Rightarrow> bool \<Rightarrow> autoencoder \<Rightarrow>
   (error + fit_summary) \<times> autoencoder" where
  "fit_data e rank epochs val run_validation use_val_for_loss_stats s =
     (let is_main_process = (rank = Some 0);
          should_run_validation = (run_validation \<and> val \<noteq> None);
          w = (truthy (patience s) \<and> \<not> should_run_validation)
      in case epoch_loop s e is_main_process should_run_validation [0..<nat epochs]
                es_init 0 of
           Inl err \<Rightarrow> (Inl err, s)
         | Inr (n, es) \<Rightarrow>
             (if is_main_process
              then (if use_val_for_loss_stats \<and> val = None then (Inl TypeError, s)
                    else (Inr \<lparr>epochs_run = n, final_es = es, warned = w\<rparr>,
                          populate_loss_stats
                            (feature_losses_on e use_val_for_loss_stats) s))
              else (Inr \<lparr>epochs_run = n, final_es = es, warned = w\<rparr>, s)))"

datatype train_data = TDataFrame dataframe | TDataLoader | TDataset | TOther

record fit_args =
  train :: train_data
  epochs :: int
  val :: "val_data option"
  run_validation :: bool
  use_val_for_loss_stats :: bool
  rank :: "int option"
  world_size :: "int option"

text \<open>
  \<open>fit\<close>: the value checks, then the build if the optimiser is unset, then
  \<open>_fit_data\<close>. The result is the exception or the summary of the training, and the
  engine object afterwards.
\<close>

definition fit :: "env \<Rightarrow> fit_args \<Rightarrow> autoencoder \<Rightarrow> (error + fit_summary) \<times> autoencoder" where
  "fit e a s =
     (if train a = TOther then (Inl TypeError, s)
      else if distributed_training s \<and> (rank a = None \<or> world_size a = None)
      then (Inl ValueError, s)
      else if \<not> distributed_training s \<and> (rank a \<noteq> None \<or> world_size a \<noteq> None)
      then (Inl ValueError, s)
      else if run_validation a \<and> val a = None then (Inl ValueError, s)
      else if use_val_for_loss_stats a \<and> val a = None then (Inl ValueError, s)
      else
        (let train_df = (case train a of TDataFrame d \<Rightarrow> Some d | _ \<Rightarrow> None);
             rank' = (if distributed_training s then rank a else Some 0)
         in case (if optim s = None then build_model train_df rank' s else (None, s)) of
              (Some err, s1) \<Rightarrow> (Inl err, s1)
            | (None, s1) \<Rightarrow>
                fit_data e rank' (epochs a) (val a) (run_validation a)
                  (use_val_for_loss_stats a) s1))"


text \<open>
  The length of the run of consecutive rises of the validation loss that ends at epoch
  \<open>k\<close>; the first epoch is compared with infinity and never counts as a rise.
\<close>

fun streak :: "(nat \<Rightarrow> real) \<Rightarrow> nat \<Rightarrow> nat" where
  "streak v 0 = 0"
| "streak v (Suc k) = (if v k < v (Suc k) then Suc (streak v k) else 0)"

text \<open>The conditions that \<open>fit\<close> checks on its arguments.\<close>

definition rank_mismatch :: "autoencoder \<Rightarrow> fit_args \<Rightarrow> bool" where
  "rank_mismatch s a \<longleftrightarrow>
     (distributed_training s \<and> (rank a = None \<or> world_size a = None)) \<or>
     (\<not> distributed_training s \<and> (rank a \<noteq> None \<or> world_size a \<noteq> None))"

definition validation_without_data :: "fit_args \<Rightarrow> bool" where
  "validation_without_data a \<longleftrightarrow>
     (run_validation a \<or> use_val_for_loss_stats a) \<and> val a = None"

subsection \<open>Anomaly scoring (\<open>_get_anomaly_score_losses\<close>)\<close>









subsection \<open>Names used in the statements\<close>

definition known_scaler_names :: "string option set" where
  "known_scaler_names =
     {Some ''standard'', Some ''gauss_rank'', Some ''modified'', Some ''none'', None}"

text \<open>The engine object that the constructor returns for the default arguments.\<close>

definition default_autoencoder :: autoencoder where
  "default_autoencoder =
     \<lparr>numeric_fts = [], binary_fts = [], categorical_fts = [],
      feature_loss_stats = [], distributed_training = False,
      model = \<lparr>built = False, ddp_params_and_buffers_to_ignore = None, ddp_rank = None\<rparr>,
      optimizer = ''adam'', optim = None, lr_decay = None, min_cats = 10,
      preset_cats = None, preset_numerical_scaler_params = None,
      batch_size = 256, eval_batch_size = 1024, num_names = [], bin_names = None,
      logger = LoggerName ''basic'', scaler_cfg = ScalerStr ''standard'',
      patience = Some 5, loss_scaler_str = Some ''standard'',
      loss_scaler = StandardScaler\<rparr>"

text \<open>A small fit set: one object column with values a, a, b, and an engine with \<open>min_cats = 2\<close>.\<close>

definition example_df :: dataframe where
  "example_df =
     \<lparr>columns = [(''c'', DObject)],
      rows = [[CStr ''a''], [CStr ''a''], [CStr ''b'']]\<rparr>"


text \<open>A dataframe with one boolean column, and the binary feature fitted from it.\<close>

definition example_bool_df :: dataframe where
  "example_bool_df =
     \<lparr>columns = [(''flag'', DBool)], rows = [[CBool True], [CBool False]]\<rparr>"

text \<open>
  An identity-like stand-in network for the binary head: the output is the encoded input.
\<close>

definition identity_model :: "real list \<Rightarrow> real list" where
  "identity_model xs = xs"

text \<open>
  Encode a column of binary labels (\<open>prepare_df\<close>, \<open>compute_targets\<close>), pass it through
  the stand-in network, and decode it (\<open>_decode_outputs_to_df\<close>).
\<close>

definition binary_round_trip :: "binary_feature \<Rightarrow> cell list \<Rightarrow> error + cell list" where
  "binary_round_trip f labels =
     decode_binary f (identity_model (map bin_target_of (prepare_df_binary f labels)))"

text \<open>
  The per-output-unit losses of a batch: one per numeric column, one per binary column,
  one per categorical feature.
\<close>

definition numeric_units :: "criteria \<Rightarrow> tensor2 \<Rightarrow> tensor2 \<Rightarrow> real list" where
  "numeric_units c num num_target = column_means (mse c num num_target)"

definition binary_units :: "criteria \<Rightarrow> tensor2 \<Rightarrow> tensor2 \<Rightarrow> real list" where
  "binary_units c bin bin_target = column_means (bce c bin bin_target)"

definition categorical_units ::
  "autoencoder \<Rightarrow> criteria \<Rightarrow> tensor2 list \<Rightarrow> int list list \<Rightarrow> real list" where
  "categorical_units s c cat cat_target =
     map (\<lambda>i. average (cce c (cat ! i) (cat_target ! i))) [0..<length (categorical_fts s)]"

text \<open>The loss tensor of a non-empty batch: rectangular, with at least one row.\<close>

definition well_shaped :: "tensor2 \<Rightarrow> bool" where
  "well_shaped t \<longleftrightarrow> rectangular t \<and> trows t \<noteq> []"

text \<open>
  Synthetic criteria for a batch of two rows whose per-unit losses are 0.1 and 0.3
  (numeric), 0.2 (binary) and 0.4 (categorical), and an engine with one categorical
  feature and a built logger.
\<close>

definition example_tensor :: "real list list \<Rightarrow> tensor2" where
  "example_tensor rs = \<lparr>ncols = length (hd rs), trows = rs\<rparr>"

definition example_input :: tensor2 where
  "example_input = example_tensor [[0]]"

definition example_loss_engine :: autoencoder where
  "example_loss_engine =
     default_autoencoder\<lparr>categorical_fts := [(''c'', [CStr ''a''])],
                         logger := BasicLogger [''c'']\<rparr>"

definition example_criteria :: criteria where
  "example_criteria =
     \<lparr>mse = (\<lambda>_ _. example_tensor [[0, 2 / 10], [2 / 10, 4 / 10]]),
      bce = (\<lambda>_ _. example_tensor [[1 / 10], [3 / 10]]),
      cce = (\<lambda>_ _. [3 / 10, 5 / 10])\<rparr>"


text \<open>
  A training run for the examples: validation losses 0, 1, 2, ... (rising every epoch),
  a training dataframe, and the engine that the first \<open>fit\<close> builds from it.
\<close>

definition example_env :: env where
  "example_env =
     \<lparr>val_loss_at = (\<lambda>k. real k), lead_stop_at = (\<lambda>k. False),
      feature_losses_on = (\<lambda>_. [(''c'', [1, 2, 3])])\<rparr>"

definition example_fit_args :: fit_args where
  "example_fit_args =
     \<lparr>train = TDataFrame example_df, epochs = 4, val = Some VDataset,
      run_validation = True, use_val_for_loss_stats = True, rank = None,
      world_size = None\<rparr>"

definition example_built_engine :: autoencoder where
  "example_built_engine =
     default_autoencoder
       \<lparr>categorical_fts := [(''c'', [])], model := \<lparr>built = True,
          ddp_params_and_buffers_to_ignore = None, ddp_rank = None\<rparr>,
        optim := Some Adam, bin_names := Some [], logger := BasicLogger [''c'']\<rparr>"

definition bad_type_args :: fit_args where
  "bad_type_args = example_fit_args\<lparr>train := TOther\<rparr>"

definition rank_given_args :: fit_args where
  "rank_given_args = example_fit_args\<lparr>rank := Some 0, world_size := Some 1\<rparr>"







section \<open>Verified properties\<close>

subsection \<open>Scaler names\<close>

lemma get_scaler_KeyError_iff:
  "get_scaler name = Inl KeyError \<longleftrightarrow> name \<notin> known_scaler_names"
  by (auto simp: get_scaler_def scalers_def known_scaler_names_def split: option.splits)

text \<open>
  Claim C10. For every scaler name outside
  \<open>{'standard', 'gauss_rank', 'modified', 'none', None}\<close> the lookup \<open>_get_scaler\<close>
  raises \<open>KeyError\<close> (and for the five names inside it returns a class), so constructing
  an \<open>AutoEncoder\<close> with any other \<open>loss_scaler\<close>, for instance \<open>'robust'\<close> or
  \<open>'identity'\<close>, fails at construction with \<open>KeyError\<close>, which is none of the error
  classes of the design taxonomy.
\<close>

theorem C10_unknown_scaler_KeyError:
  "name \<notin> known_scaler_names \<Longrightarrow>
     get_scaler name = Inl KeyError \<and>
     AutoEncoder_init (a\<lparr>a_loss_scaler := name\<rparr>) = Inl KeyError \<and>
     KeyError \<notin> {ConfigurationError, TypeError, ValueError}"
  using get_scaler_KeyError_iff [of name] by (simp add: AutoEncoder_init_def)

theorem C10_unknown_scaler_KeyError_witness:
  "Some ''robust'' \<notin> known_scaler_names \<and>
   get_scaler (Some ''robust'') = Inl KeyError \<and>
   AutoEncoder_init (default_args\<lparr>a_loss_scaler := Some ''robust''\<rparr>) = Inl KeyError"
  using C10_unknown_scaler_KeyError [of "Some ''robust''" default_args]
  by (simp add: known_scaler_names_def)

subsection \<open>Feature initialisation without a dataframe\<close>


text \<open>
  Claim C4, as the specification states it, asks for \<open>ConfigurationError\<close>. On the
  freshly constructed default engine (no presets at all) and no dataframe,
  \<open>_init_features\<close> raises \<open>ValueError\<close>, so the error is not \<open>ConfigurationError\<close>.
\<close>

theorem C4_not_ConfigurationError:
  "fst (init_features None default_autoencoder) = Some ValueError \<and>
   fst (init_features None default_autoencoder) \<noteq> Some ConfigurationError"
  by (simp add: init_features_def default_autoencoder_def)

text \<open>
  Claim C4, amended. Whenever no dataframe is supplied and any of the categorical presets,
  the numeric scaler presets and the binary column list is \<open>None\<close>, feature
  initialisation raises \<open>ValueError\<close> (as its docstring says) before it writes anything:
  the engine object is left as it was.
\<close>

theorem C4_init_features_ValueError:
  "preset_cats s = None \<or> bin_names s = None \<or> preset_numerical_scaler_params s = None \<Longrightarrow>
     init_features None s = (Some ValueError, s)"
  by (simp add: init_features_def)

theorem C4_init_features_ValueError_witness:
  "(preset_cats default_autoencoder = None \<or> bin_names default_autoencoder = None \<or>
    preset_numerical_scaler_params default_autoencoder = None) \<and>
   init_features None default_autoencoder = (Some ValueError, default_autoencoder)"
  using C4_init_features_ValueError [of default_autoencoder]
  by (simp add: default_autoencoder_def)

subsection \<open>Categorical features: the frequency cut-off and the sentinel\<close>











lemma init_cats_loop_min_cats:
  "init_cats_loop df fts s = (r, s') \<Longrightarrow> min_cats s' = min_cats s"
  by (induction fts arbitrary: s) (auto split: sum.splits)










subsection \<open>Decoding categorical outputs\<close>

lemma argmax_from_spec:
  assumes "ys = pre @ xs" "i = length pre" "best < i" "bv = ys ! best"
    "\<forall>j < i. ys ! j \<le> bv" "\<forall>j < best. ys ! j < bv"
  shows "argmax_from best bv i xs < length ys \<and>
         (\<forall>j < length ys. ys ! j \<le> ys ! argmax_from best bv i xs) \<and>
         (\<forall>j < argmax_from best bv i xs. ys ! j < ys ! argmax_from best bv i xs)"
  using assms
proof (induction xs arbitrary: pre best bv i)
  case Nil
  then show ?case by auto
next
  case (Cons x xs)
  have ysi: "ys ! i = x" using Cons.prems(1,2) by simp
  have split: "ys = (pre @ [x]) @ xs" using Cons.prems(1) by simp
  have len: "Suc i = length (pre @ [x])" using Cons.prems(2) by simp
  show ?case
  proof (cases "bv < x")
    case True
    have a: "\<forall>j < Suc i. ys ! j \<le> x"
      using Cons.prems(5) True ysi by (auto simp: less_Suc_eq)
    have b: "\<forall>j < i. ys ! j < x"
      using Cons.prems(5) True by fastforce
    have c: "i < Suc i" by simp
    have d: "x = ys ! i" using ysi by simp
    from Cons.IH [OF split len c d a b] True show ?thesis by simp
  next
    case False
    have a: "\<forall>j < Suc i. ys ! j \<le> bv"
      using Cons.prems(5) False ysi by (auto simp: less_Suc_eq)
    have c: "best < Suc i" using Cons.prems(3) by simp
    from Cons.IH [OF split len c Cons.prems(4) a Cons.prems(6)] False
    show ?thesis by simp
  qed
qed

lemma argmax_spec:
  assumes "xs \<noteq> []"
  shows "\<exists>x. argmax xs = Inr x \<and> x < length xs \<and>
           (\<forall>j < length xs. xs ! j \<le> xs ! x) \<and> (\<forall>j < x. xs ! j < xs ! x)"
proof -
  from assms obtain a r where xs: "xs = a # r" by (cases xs) auto
  have "argmax_from 0 a 1 r < length xs \<and>
         (\<forall>j < length xs. xs ! j \<le> xs ! argmax_from 0 a 1 r) \<and>
         (\<forall>j < argmax_from 0 a 1 r. xs ! j < xs ! argmax_from 0 a 1 r)"
    by (rule argmax_from_spec [where pre = "[a]"]) (auto simp: xs)
  then show ?thesis by (simp add: argmax_def xs)
qed

lemma collect_all_Inr:
  "\<forall>r \<in> set rs. \<exists>x. r = Inr x \<and> P x \<Longrightarrow>
     \<exists>xs. collect rs = Inr xs \<and> length xs = length rs \<and> (\<forall>x \<in> set xs. P x)"
proof (induction rs)
  case Nil
  then show ?case by simp
next
  case (Cons r rs)
  then obtain x where "r = Inr x" "P x" by auto
  moreover from Cons obtain xs where "collect rs = Inr xs" "length xs = length rs" "\<forall>x \<in> set xs. P x"
    by auto
  ultimately show ?case by simp
qed

lemma decode_label_row:
  assumes "length logits = length cats + 1"
  shows "(cats \<noteq> [] \<longrightarrow>
           (\<exists>x. decode_code cats logits = Inr x \<and> x < length cats \<and>
                (\<forall>j < length cats. logits ! j \<le> logits ! x) \<and>
                (\<forall>j < x. logits ! j < logits ! x) \<and>
                decode_label cats logits = Inr ((cats @ [other]) ! x) \<and>
                (cats @ [other]) ! x = cats ! x \<and> cats ! x \<in> set cats)) \<and>
         (cats = [] \<longrightarrow>
            decode_code cats logits = argmax logits \<and>
            decode_code cats logits = Inr 0 \<and>
            decode_label cats logits = Inr ((cats @ [other]) ! 0) \<and>
            (cats @ [other]) ! 0 = other)"
proof (intro conjI impI)
  assume ne: "cats \<noteq> []"
  let ?b = "butlast logits"
  have lb: "length ?b = length cats" using assms by simp
  with ne have "?b \<noteq> []" by (metis length_0_conv)
  from argmax_spec [OF this] lb obtain x where x: "argmax ?b = Inr x" "x < length cats"
    "\<forall>j < length cats. ?b ! j \<le> ?b ! x" "\<forall>j < x. ?b ! j < ?b ! x"
    by auto
  have nb: "\<And>j. j < length cats \<Longrightarrow> ?b ! j = logits ! j"
    using lb by (simp add: nth_butlast)
  from x nb have "\<forall>j < length cats. logits ! j \<le> logits ! x" by auto
  moreover from x nb have "\<forall>j < x. logits ! j < logits ! x" by auto
  moreover have "decode_code cats logits = Inr x" using ne x by (simp add: decode_code_def)
  moreover have "decode_label cats logits = Inr ((cats @ [other]) ! x)"
    using ne x by (simp add: decode_label_def decode_code_def list_get_def)
  moreover have "(cats @ [other]) ! x = cats ! x" using x(2) by (simp add: nth_append)
  ultimately show "\<exists>x. decode_code cats logits = Inr x \<and> x < length cats \<and>
                (\<forall>j < length cats. logits ! j \<le> logits ! x) \<and>
                (\<forall>j < x. logits ! j < logits ! x) \<and>
                decode_label cats logits = Inr ((cats @ [other]) ! x) \<and>
                (cats @ [other]) ! x = cats ! x \<and> cats ! x \<in> set cats"
    using x(2) by auto
next
  assume e: "cats = []"
  then show "decode_code cats logits = argmax logits" by (simp add: decode_code_def)
  from e assms obtain a where l: "logits = [a]" by (cases logits) auto
  then show "decode_code cats logits = Inr 0" using e by (simp add: decode_code_def argmax_def)
  then show "decode_label cats logits = Inr ((cats @ [other]) ! 0)"
    using e by (simp add: decode_label_def list_get_def)
  show "(cats @ [other]) ! 0 = other" using e by simp
qed

text \<open>
  Claim C7. A categorical feature's network head emits \<open>len(cats) + 1\<close> logits per row.
  When the feature has at least one retained category, decoding takes the (first) arg-max
  over the logits without the last one, so the chosen code is below \<open>len(cats)\<close>, never
  the \<open>_other\<close> slot, and the label read from \<open>cats + ['_other']\<close> is a retained
  category; this holds for every row of a decoded column. With no retained category the
  arg-max runs over all logits (the single \<open>_other\<close> logit) and the label is \<open>_other\<close>.
\<close>

theorem C7_argmax_excludes_other:
  assumes "length logits = length cats + 1"
    and "\<forall>r \<in> set logit_rows. length r = length cats + 1"
  shows "(cats \<noteq> [] \<longrightarrow>
           (\<exists>x. decode_code cats logits = Inr x \<and> x < length cats \<and>
                (\<forall>j < length cats. logits ! j \<le> logits ! x) \<and>
                (\<forall>j < x. logits ! j < logits ! x) \<and>
                decode_label cats logits = Inr ((cats @ [other]) ! x) \<and>
                (cats @ [other]) ! x = cats ! x \<and> cats ! x \<in> set cats) \<and>
           (\<exists>labels. decode_categorical cats logit_rows = Inr labels \<and>
                length labels = length logit_rows \<and>
                (\<forall>l \<in> set labels. l \<in> set cats))) \<and>
         (cats = [] \<longrightarrow>
            decode_code cats logits = argmax logits \<and>
            decode_code cats logits = Inr 0 \<and>
            decode_label cats logits = Inr ((cats @ [other]) ! 0) \<and>
            (cats @ [other]) ! 0 = other)"
proof -
  have col: "\<exists>labels. decode_categorical cats logit_rows = Inr labels \<and>
                length labels = length logit_rows \<and>
                (\<forall>l \<in> set labels. l \<in> set cats)" if ne: "cats \<noteq> []"
  proof -
    have "\<forall>r \<in> set (map (decode_label cats) logit_rows). \<exists>l. r = Inr l \<and> l \<in> set cats"
    proof
      fix r assume "r \<in> set (map (decode_label cats) logit_rows)"
      then obtain row where row: "row \<in> set logit_rows" "r = decode_label cats row" by auto
      with assms(2) have "length row = length cats + 1" by simp
      from decode_label_row [OF this] ne row(2) show "\<exists>l. r = Inr l \<and> l \<in> set cats"
        by auto
    qed
    from collect_all_Inr [of "map (decode_label cats) logit_rows" "\<lambda>l. l \<in> set cats", OF this]
    show ?thesis by (simp add: decode_categorical_def)
  qed
  from decode_label_row [OF assms(1)] col show ?thesis by blast
qed

theorem C7_argmax_excludes_other_witness:
  "length [1, 5, 9 :: real] = length [CStr ''a'', CStr ''b''] + 1 \<and>
   length [2, 2, 0 :: real] = length [CStr ''a'', CStr ''b''] + 1 \<and>
   decode_code [CStr ''a'', CStr ''b''] [1, 5, 9] = Inr 1 \<and>
   decode_label [CStr ''a'', CStr ''b''] [1, 5, 9] = Inr (CStr ''b'') \<and>
   decode_categorical [CStr ''a'', CStr ''b''] [[1, 5, 9], [2, 2, 0]] =
     Inr [CStr ''b'', CStr ''a''] \<and>
   decode_label [] [7] = Inr other"
  using C7_argmax_excludes_other
    [of "[1, 5, 9]" "[CStr ''a'', CStr ''b'']" "[[1, 5, 9], [2, 2, 0]]"]
  by (simp add: decode_categorical_def decode_label_def decode_code_def argmax_def
      list_get_def)

subsection \<open>Binary features: encoding and decoding\<close>

lemma init_binary_example:
  "init_binary (Some example_bool_df) default_autoencoder =
     (None, default_autoencoder\<lparr>bin_names := Some [''flag''],
                                binary_fts := [(''flag'', new_binary_feature)]\<rparr>)"
  by (simp add: init_binary_def default_autoencoder_def example_bool_df_def
      select_dtypes_def)

lemma round_to_bool_target: "round_to_bool (bin_target_of b) = b"
  by (simp add: round_to_bool_def round_half_even_def bin_target_of_def)

text \<open>
  Claim C3 asks that decoding return the label that encodes to the rounded output, so that
  an encode-then-decode round trip through an identity-like network reproduces the binary
  labels. The feature that \<open>_init_binary\<close> writes has \<open>cats = [True, False]\<close> with
  \<open>True\<close> encoded as \<open>True\<close>, while decoding reads \<open>cats[0]\<close> for \<open>False\<close> and
  \<open>cats[1]\<close> for \<open>True\<close>: the round trip returns the opposite label for every input.
\<close>

theorem C3_binary_round_trip_flips:
  "binary_round_trip new_binary_feature [CBool True, CBool False] =
     Inr [CBool False, CBool True] \<and>
   binary_round_trip new_binary_feature [CBool b] = Inr [CBool (\<not> b)] \<and>
   map_of (binary_fts (snd (init_binary (Some example_bool_df) default_autoencoder))) ''flag''
     = Some new_binary_feature"
  by (simp add: binary_round_trip_def identity_model_def decode_binary_def
      prepare_df_binary_def feature_get_def new_binary_feature_def round_to_bool_target
      init_binary_example)

subsection \<open>Loss composition\<close>

lemma sum_columns_eq_sum_entries:
  fixes rs :: "real list list"
  shows "\<forall>r \<in> set rs. length r = n \<Longrightarrow>
     sum_list (map (\<lambda>j. sum_list (map (\<lambda>r. r ! j) rs)) [0..<n]) = sum_list (concat rs)"
proof (induction rs)
  case Nil
  then show ?case by simp
next
  case (Cons r rs)
  have "sum_list (map (\<lambda>j. sum_list (map (\<lambda>r. r ! j) (r # rs))) [0..<n]) =
        sum_list (map (\<lambda>j. r ! j) [0..<n]) +
        sum_list (map (\<lambda>j. sum_list (map (\<lambda>r. r ! j) rs)) [0..<n])"
    using sum_list_addf [of "\<lambda>j. r ! j" "\<lambda>j. sum_list (map (\<lambda>r. r ! j) rs)" "[0..<n]"]
    by simp
  moreover have "map (\<lambda>j. r ! j) [0..<n] = r"
    using Cons.prems map_nth [of r] by auto
  ultimately show ?case using Cons by simp
qed

lemma length_concat_rect:
  "\<forall>r \<in> set rs. length r = n \<Longrightarrow> length (concat rs) = length rs * n"
  by (induction rs) auto

lemma sum_list_divide: "sum_list (map (\<lambda>j. f j / (c::real)) xs) = sum_list (map f xs) / c"
  by (induction xs) (auto simp: add_divide_distrib)

lemma mean_dim0_column_means:
  "trows t \<noteq> [] \<Longrightarrow> mean_dim0 t = map Some (column_means t)"
  by (simp add: mean_dim0_def column_means_def mean_of_def column_of_def)

lemma tensor_mean_average:
  assumes "rectangular t" "trows t \<noteq> []"
  shows "tensor_mean t = (if ncols t = 0 then None else Some (average (column_means t)))"
proof (cases "ncols t = 0")
  case True
  have rect: "\<forall>r \<in> set (trows t). length r = ncols t"
    using assms(1) by (simp add: rectangular_def list_all_iff)
  with True have "concat (trows t) = []" by simp
  with True show ?thesis by (simp add: tensor_mean_def mean_of_def)
next
  case False
  have rect: "\<forall>r \<in> set (trows t). length r = ncols t"
    using assms(1) by (simp add: rectangular_def list_all_iff)
  have ne: "concat (trows t) \<noteq> []"
    using length_concat_rect [OF rect] assms(2) False
    by (metis length_0_conv mult_is_0)
  have "sum_list (column_means t) = sum_list (concat (trows t)) / real (length (trows t))"
    unfolding column_means_def column_of_def
    by (simp add: sum_list_divide sum_columns_eq_sum_entries [OF rect])
  then have "average (column_means t) =
      sum_list (concat (trows t)) / real (length (concat (trows t)))"
    by (simp add: average_def column_means_def length_concat_rect [OF rect] mult.commute)
  with ne False show ?thesis by (simp add: tensor_mean_def mean_of_def)
qed

lemma np_mean_Some: "xs \<noteq> [] \<Longrightarrow> np_mean (map Some xs) = Some (average xs)"
  by (auto simp: np_mean_def average_def comp_def)

lemma fold_fadd_Some:
  "fold (\<lambda>ls loss_fn. fadd loss_fn ls) (map Some xs) (Some a) = Some (a + sum_list xs)"
  by (induction xs arbitrary: a) (auto simp: fadd_def)

lemma cce_loop_Some:
  "\<forall>i \<in> set idx. i < length cat \<and> i < length cat_target \<and> cce c (cat ! i) (cat_target ! i) \<noteq> [] \<Longrightarrow>
     cce_loop c cat cat_target idx =
       Inr (map Some (map (\<lambda>i. average (cce c (cat ! i) (cat_target ! i))) idx))"
  by (induction idx) (auto simp: mean_of_def average_def)

lemma length_column_means: "length (column_means t) = ncols t"
  by (simp add: column_means_def)

lemma example_units:
  "numeric_units example_criteria t t = [1 / 10, 3 / 10]"
  "binary_units example_criteria t t = [2 / 10]"
  "categorical_units example_loss_engine example_criteria [t] [[]] = [4 / 10]"
  by (simp_all add: numeric_units_def binary_units_def categorical_units_def example_criteria_def
      example_tensor_def column_means_def column_of_def average_def example_loss_engine_def
      default_autoencoder_def upt_rec)

text \<open>
  Claim C1. For every non-empty batch (rectangular loss tensors with at least one row, a
  loss per row for each categorical head), the scalar that \<open>_fit_batch\<close> hands to
  backpropagation is the mean numeric loss plus the mean binary loss plus the sum of the
  categorical columns' mean losses, where the mean numeric (binary) loss over all entries
  equals the mean of the per-column means (and is \<open>NaN\<close>, as is the scalar, when the
  engine has no numeric or no binary column); the net loss returned and logged is the
  plain average of the flattened list of per-unit losses. For per-unit losses 0.1, 0.3
  (numeric), 0.2 (binary), 0.4 (categorical) the net loss is 0.25 and the optimised scalar
  is 0.2 + 0.2 + 0.4.
\<close>

theorem C1_loss_aggregation:
  assumes "well_shaped (mse c num num_target)" and "well_shaped (bce c bin bin_target)"
    and "\<forall>i < length (categorical_fts s).
           i < length cat \<and> i < length cat_target \<and> cce c (cat ! i) (cat_target ! i) \<noteq> []"
    and "\<forall>n. logger s \<noteq> LoggerName n"
    and "forward x = (num, bin, cat)"
  shows "\<exists>l. fit_batch s c forward x num_target bin_target cat_target =
              Inr (do_backward (mse_loss l) (bce_loss l) (cce_loss l), l) \<and>
             compute_loss_from_targets s c True num bin cat num_target bin_target
               cat_target True False = Inr l \<and>
             mse_loss l =
               (if numeric_units c num num_target = [] then None
                else Some (average (numeric_units c num num_target))) \<and>
             bce_loss l =
               (if binary_units c bin bin_target = [] then None
                else Some (average (binary_units c bin bin_target))) \<and>
             cce_loss l = map Some (categorical_units s c cat cat_target) \<and>
             do_backward (mse_loss l) (bce_loss l) (cce_loss l) =
               (if numeric_units c num num_target = [] \<or> binary_units c bin bin_target = []
                then None
                else Some (average (numeric_units c num num_target) +
                           average (binary_units c bin bin_target) +
                           sum_list (categorical_units s c cat cat_target))) \<and>
             net_loss l =
               (if numeric_units c num num_target @ binary_units c bin bin_target @
                   categorical_units s c cat cat_target = [] then None
                else Some (average (numeric_units c num num_target @
                                    binary_units c bin bin_target @
                                    categorical_units s c cat cat_target))) \<and>
             logged l =
               (if logger s = NoLogger then None
                else Some (TrainingStep (map Some
                       (numeric_units c num num_target @ binary_units c bin bin_target @
                        categorical_units s c cat cat_target))))"
proof -
  let ?m = "mse c num num_target" and ?b = "bce c bin bin_target"
  let ?Un = "numeric_units c num num_target" and ?Ub = "binary_units c bin bin_target"
  let ?Uc = "categorical_units s c cat cat_target"
  let ?U = "?Un @ ?Ub @ ?Uc"
  have en: "?Un = [] \<longleftrightarrow> ncols ?m = 0" and eb: "?Ub = [] \<longleftrightarrow> ncols ?b = 0"
    using length_column_means [of ?m] length_column_means [of ?b]
    by (auto simp: numeric_units_def binary_units_def)
  have m: "tensor_mean ?m = (if ?Un = [] then None else Some (average ?Un))"
    "mean_dim0 ?m = map Some ?Un"
    using assms(1) en
    by (simp_all add: well_shaped_def numeric_units_def tensor_mean_average
        mean_dim0_column_means)
  have b: "tensor_mean ?b = (if ?Ub = [] then None else Some (average ?Ub))"
    "mean_dim0 ?b = map Some ?Ub"
    using assms(2) eb
    by (simp_all add: well_shaped_def binary_units_def tensor_mean_average
        mean_dim0_column_means)
  have cs: "cce_loop c cat cat_target [0..<length (categorical_fts s)] = Inr (map Some ?Uc)"
    using assms(3) by (simp add: cce_loop_Some categorical_units_def)
  have nm: "np_mean (map Some ?U) = (if ?U = [] then None else Some (average ?U))"
    using np_mean_Some [of ?U] by (simp add: np_mean_def)
  have lg: "log_step (logger s) True True False (map Some ?U) =
      Inr (if logger s = NoLogger then None else Some (TrainingStep (map Some ?U)))"
    using assms(4) by (cases "logger s") (simp_all add: log_step_def)
  define l where "l = \<lparr>mse_loss = tensor_mean ?m, bce_loss = tensor_mean ?b,
      cce_loss = map Some ?Uc,
      logged = (if logger s = NoLogger then None else Some (TrainingStep (map Some ?U))),
      net_loss = np_mean (map Some ?U)\<rparr>"
  have cl: "compute_loss_from_targets s c True num bin cat num_target bin_target
               cat_target True False = Inr l"
    using m(2) b(2) cs lg
    by (simp add: compute_loss_from_targets_def Let_def l_def)
  have bw: "do_backward (mse_loss l) (bce_loss l) (cce_loss l) =
      (if ?Un = [] \<or> ?Ub = [] then None
       else Some (average ?Un + average ?Ub + sum_list ?Uc))"
  proof (cases "?Un = [] \<or> ?Ub = []")
    case True
    have "fold (\<lambda>ls loss_fn. fadd loss_fn ls) ys None = None" for ys
      by (induction ys) (simp_all add: fadd_def)
    moreover from True have "fadd (tensor_mean ?m) (tensor_mean ?b) = None"
      using m(1) b(1) by (auto simp: fadd_def split: option.splits)
    ultimately show ?thesis using True by (simp add: l_def do_backward_def)
  next
    case False
    then have "fadd (tensor_mean ?m) (tensor_mean ?b) = Some (average ?Un + average ?Ub)"
      using m(1) b(1) by (simp add: fadd_def)
    with False show ?thesis by (simp add: l_def do_backward_def fold_fadd_Some)
  qed
  have fb: "fit_batch s c forward x num_target bin_target cat_target =
      Inr (do_backward (mse_loss l) (bce_loss l) (cce_loss l), l)"
    using assms(5) cl by (simp add: fit_batch_def)
  have ms: "mse_loss l = (if ?Un = [] then None else Some (average ?Un))"
    using m(1) by (simp add: l_def)
  have bs: "bce_loss l = (if ?Ub = [] then None else Some (average ?Ub))"
    using b(1) by (simp add: l_def)
  have c: "cce_loss l = map Some ?Uc" by (simp add: l_def)
  have n: "net_loss l = (if ?U = [] then None else Some (average ?U))"
    using nm by (simp add: l_def)
  have g: "logged l =
      (if logger s = NoLogger then None else Some (TrainingStep (map Some ?U)))"
    by (simp add: l_def)
  from fb cl ms bs c bw n g show ?thesis by blast
qed

theorem C1_loss_aggregation_witness:
  "well_shaped (mse example_criteria example_input example_input) \<and>
   well_shaped (bce example_criteria example_input example_input) \<and>
   length (categorical_fts example_loss_engine) = 1 \<and>
   cce example_criteria ([example_input] ! 0) ([[]] ! 0) \<noteq> [] \<and>
   (\<forall>n. logger example_loss_engine \<noteq> LoggerName n) \<and>
   (\<exists>l. fit_batch example_loss_engine example_criteria
           (\<lambda>_. (example_input, example_input, [example_input])) () example_input
           example_input [[]] = Inr (Some (8 / 10), l) \<and>
        net_loss l = Some (25 / 100) \<and>
        logged l =
          Some (TrainingStep [Some (1 / 10), Some (3 / 10), Some (2 / 10), Some (4 / 10)]))"
proof -
  have h1: "well_shaped (mse example_criteria example_input example_input)"
    by (simp add: well_shaped_def rectangular_def example_criteria_def example_tensor_def)
  have h2: "well_shaped (bce example_criteria example_input example_input)"
    by (simp add: well_shaped_def rectangular_def example_criteria_def example_tensor_def)
  have h3: "\<forall>i < length (categorical_fts example_loss_engine).
       i < length [example_input] \<and> i < length [[] :: int list] \<and>
       cce example_criteria ([example_input] ! i) ([[]] ! i) \<noteq> []"
    by (simp add: example_loss_engine_def example_criteria_def)
  have h4: "\<forall>n. logger example_loss_engine \<noteq> LoggerName n"
    by (simp add: example_loss_engine_def)
  have lg: "logger example_loss_engine \<noteq> NoLogger"
    by (simp add: example_loss_engine_def)
  from h1 h2 h3 h4 lg
    C1_loss_aggregation [where c = example_criteria and num = example_input
      and num_target = example_input and bin = example_input and bin_target = example_input
      and s = example_loss_engine and cat = "[example_input]" and cat_target = "[[]]"
      and forward = "\<lambda>_. (example_input, example_input, [example_input])" and x = "()"]
  have "\<exists>l. fit_batch example_loss_engine example_criteria
           (\<lambda>_. (example_input, example_input, [example_input])) () example_input
           example_input [[]] = Inr (Some (8 / 10), l) \<and>
        net_loss l = Some (25 / 100) \<and>
        logged l =
          Some (TrainingStep [Some (1 / 10), Some (3 / 10), Some (2 / 10), Some (4 / 10)])"
    by (simp add: example_units average_def) metis
  moreover have "length (categorical_fts example_loss_engine) = 1"
    by (simp add: example_loss_engine_def)
  moreover have "cce example_criteria ([example_input] ! 0) ([[]] ! 0) \<noteq> []"
    by (simp add: example_criteria_def)
  ultimately show ?thesis using h1 h2 h4 by blast
qed

subsection \<open>Argument checks of \<open>fit\<close>\<close>

text \<open>
  Claim C8. \<open>fit\<close> raises \<open>TypeError\<close> when \<open>train_data\<close> is neither a dataframe,
  a dataset nor a batch loader; for train data of an accepted type it raises
  \<open>ValueError\<close> when rank and world size do not fit the mode (both required in distributed
  mode, both forbidden in centralised mode) or when \<open>run_validation\<close> or
  \<open>use_val_for_loss_stats\<close> is set without validation data. Each is raised at the call
  boundary: the engine object is returned untouched, nothing was built or trained.
\<close>

theorem C8_fit_checks:
  "(train a = TOther \<longrightarrow> fit e a s = (Inl TypeError, s)) \<and>
   (train a \<noteq> TOther \<and> (rank_mismatch s a \<or> validation_without_data a) \<longrightarrow>
      fit e a s = (Inl ValueError, s))"
  by (auto simp: fit_def rank_mismatch_def validation_without_data_def)

theorem C8_fit_checks_witness:
  "train bad_type_args = TOther \<and>
   fit example_env bad_type_args default_autoencoder = (Inl TypeError, default_autoencoder) \<and>
   train rank_given_args \<noteq> TOther \<and>
   (rank_mismatch default_autoencoder rank_given_args \<or>
    validation_without_data rank_given_args) \<and>
   fit example_env rank_given_args default_autoencoder = (Inl ValueError, default_autoencoder)"
  using C8_fit_checks [of bad_type_args example_env default_autoencoder]
    C8_fit_checks [of rank_given_args example_env default_autoencoder]
  by (simp add: bad_type_args_def rank_given_args_def example_fit_args_def rank_mismatch_def
      default_autoencoder_def)

subsection \<open>The model is built once\<close>












subsection \<open>Early stopping\<close>

lemma early_stopping_step_count:
  "p \<noteq> 0 \<Longrightarrow>
     count_es (early_stopping_step (Some p) c es) =
       (if loss_went_up c (last_val_loss es) then count_es es + 1 else 0) \<and>
     last_val_loss (early_stopping_step (Some p) c es) = Some c \<and>
     should_early_stop (early_stopping_step (Some p) c es) =
       (should_early_stop es \<or> (loss_went_up c (last_val_loss es) \<and> p \<le> count_es es + 1))"
  by (simp add: early_stopping_step_def)

lemma early_stopping_step_falsy:
  "\<not> truthy pat \<Longrightarrow> early_stopping_step pat c es = es"
  by (auto simp: early_stopping_step_def truthy_def split: option.splits)

lemma epoch_loop_lead:
  assumes pat: "patience s = Some p" "0 < p"
    and inv: "last_val_loss es = (if a = 0 then None else Some (val_loss_at e (a - 1)))"
      "count_es es = (if a = 0 then 0 else int (streak (val_loss_at e) (a - 1)))"
      "\<not> should_early_stop es" "\<forall>k < a. int (streak (val_loss_at e) k) < p"
    and ab: "a \<le> b"
    and lg: "has_end_epoch (logger s)"
    and res: "epoch_loop s e True True [a..<b] es a = Inr (n, es')"
  shows "a \<le> n \<and> n \<le> b \<and>
         (\<forall>k < n - 1. int (streak (val_loss_at e) k) < p) \<and>
         (should_early_stop es' \<longrightarrow> a < n \<and> int (streak (val_loss_at e) (n - 1)) = p) \<and>
         (\<not> should_early_stop es' \<longrightarrow> n = b \<and> (\<forall>k < b. int (streak (val_loss_at e) k) < p)) \<and>
         (0 < n \<longrightarrow> count_es es' = int (streak (val_loss_at e) (n - 1)))"
  using inv ab res
proof (induction "b - a" arbitrary: a es)
  case 0
  then show ?case by auto
next
  case (Suc d)
  let ?v = "val_loss_at e"
  from Suc.hyps(2) have lt: "a < b" by simp
  then have upt: "[a..<b] = a # [Suc a..<b]" by (simp add: upt_conv_Cons)
  let ?es = "early_stopping_step (Some p) (?v a) es"
  have p0: "p \<noteq> 0" using pat(2) by simp
  have up: "loss_went_up (?v a) (last_val_loss es) \<longleftrightarrow> 0 < a \<and> ?v (a - 1) < ?v a"
    using Suc.prems(1) by (simp add: loss_went_up_def)
  have st: "streak ?v a = (if 0 < a \<and> ?v (a - 1) < ?v a then Suc (streak ?v (a - 1)) else 0)"
    by (cases a) auto
  have cnt: "count_es ?es = int (streak ?v a)"
    using early_stopping_step_count [OF p0, of "?v a" es] up st Suc.prems(2) by auto
  have lst: "last_val_loss ?es = Some (?v a)"
    using early_stopping_step_count [OF p0, of "?v a" es] by simp
  have stop: "should_early_stop ?es \<longleftrightarrow> p \<le> int (streak ?v a)"
    using early_stopping_step_count [OF p0, of "?v a" es] up st Suc.prems(2,3) pat(2)
    by auto
  have below: "int (streak ?v a) \<le> p"
  proof (cases "0 < a \<and> ?v (a - 1) < ?v a")
    case True
    then have "a - 1 < a" by simp
    with Suc.prems(4) have "int (streak ?v (a - 1)) < p" by blast
    with st True show ?thesis by simp
  next
    case False
    with st have "streak ?v a = 0" by auto
    with pat(2) show ?thesis by simp
  qed
  show ?case
  proof (cases "should_early_stop ?es")
    case True
    with Suc.prems(6) upt pat(1) lg have r: "n = Suc a" "es' = ?es" by (simp_all add: Let_def)
    from True stop below have "int (streak ?v a) = p" by simp
    with r True cnt lt Suc.prems(4) show ?thesis by simp
  next
    case False
    with Suc.prems(6) upt pat(1) lg
    have r: "epoch_loop s e True True [Suc a..<b] ?es (Suc a) = Inr (n, es')"
      by (simp add: Let_def)
    have i1: "last_val_loss ?es = (if Suc a = 0 then None else Some (?v (Suc a - 1)))"
      using lst by simp
    have i2: "count_es ?es = (if Suc a = 0 then 0 else int (streak ?v (Suc a - 1)))"
      using cnt by simp
    have i4: "\<forall>k < Suc a. int (streak ?v k) < p"
      using Suc.prems(4) False stop by (auto simp: less_Suc_eq)
    have d: "d = b - Suc a" using Suc.hyps(2) by simp
    have le: "Suc a \<le> b" using lt by simp
    from Suc.hyps(1) [OF d i1 i2 False i4 le r] show ?thesis by auto
  qed
qed

lemma epoch_loop_returns:
  "has_end_epoch (logger s) \<Longrightarrow> \<exists>n es'. epoch_loop s e is_main should_val idx es k = Inr (n, es')"
  by (induction idx arbitrary: es k) (auto simp: Let_def)

lemma epoch_loop_no_stop:
  assumes "\<not> truthy (patience s) \<or> \<not> should_val" "is_main \<or> \<not> distributed_training s"
    "\<not> should_early_stop es" "has_end_epoch (logger s)"
  shows "epoch_loop s e is_main should_val idx es n = Inr (n + length idx, es)"
  using assms
  by (induction idx arbitrary: n) (auto simp: Let_def early_stopping_step_falsy)

text \<open>
  Claim C2. In the process that decides (rank 0: the only process of a centralised run,
  the lead of a distributed one), with a built logger and a data set for the final pass,
  \<open>_fit_data\<close> returns, and with validation enabled and a positive patience \<open>p\<close>:
  after each validation the counter is incremented when the loss is strictly greater than
  the previous epoch's and reset to zero otherwise (the first epoch is compared with
  infinity), so after epoch \<open>k\<close> it is the length of the run of rises ending at \<open>k\<close>;
  the epoch loop is left exactly at the first epoch where that counter reaches \<open>p\<close>
  (no earlier epoch has reached it), and runs all epochs if none does. With a falsy
  patience, or without validation, all epochs run, the flag is never set, and the only
  effect is the warning, given when a truthy patience meets a run without validation.
\<close>

theorem C2_early_stopping:
  assumes "r = Some 0" and "has_end_epoch (logger s)" and "\<not> (uv \<and> vd = None)"
  shows "(\<forall>q c es. q \<noteq> 0 \<longrightarrow>
            count_es (early_stopping_step (Some q) c es) =
              (if loss_went_up c (last_val_loss es) then count_es es + 1 else 0)) \<and>
         (\<exists>sm s'. fit_data e r n_epochs vd rv uv s = (Inr sm, s') \<and>
            (rv \<and> vd \<noteq> None \<and> patience s = Some p \<and> 0 < p \<longrightarrow>
               epochs_run sm \<le> nat n_epochs \<and>
               (\<forall>k < epochs_run sm - 1. int (streak (val_loss_at e) k) < p) \<and>
               (should_early_stop (final_es sm) \<longrightarrow>
                  0 < epochs_run sm \<and>
                  int (streak (val_loss_at e) (epochs_run sm - 1)) = p) \<and>
               (\<not> should_early_stop (final_es sm) \<longrightarrow>
                  epochs_run sm = nat n_epochs \<and>
                  (\<forall>k < nat n_epochs. int (streak (val_loss_at e) k) < p)) \<and>
               (0 < epochs_run sm \<longrightarrow>
                  count_es (final_es sm) = int (streak (val_loss_at e) (epochs_run sm - 1))) \<and>
               \<not> warned sm) \<and>
            (\<not> truthy (patience s) \<or> \<not> (rv \<and> vd \<noteq> None) \<longrightarrow>
               epochs_run sm = nat n_epochs \<and>
               \<not> should_early_stop (final_es sm) \<and>
               count_es (final_es sm) = 0 \<and>
               (warned sm \<longleftrightarrow> truthy (patience s))))"
proof -
  let ?v = "val_loss_at e"
  let ?val = "rv \<and> vd \<noteq> None"
  have A: "\<forall>q c es. q \<noteq> 0 \<longrightarrow>
            count_es (early_stopping_step (Some q) c es) =
              (if loss_went_up c (last_val_loss es) then count_es es + 1 else 0)"
    using early_stopping_step_count by simp
  obtain n es where lp: "epoch_loop s e True ?val [0..<nat n_epochs] es_init 0 = Inr (n, es)"
    using epoch_loop_returns [OF assms(2)] by blast
  define sm where "sm = \<lparr>epochs_run = n, final_es = es,
      warned = (truthy (patience s) \<and> \<not> ?val)\<rparr>"
  define s' where "s' = populate_loss_stats (feature_losses_on e uv) s"
  have fd: "fit_data e r n_epochs vd rv uv s = (Inr sm, s')"
    using lp assms(1,3) by (auto simp: fit_data_def Let_def sm_def s'_def)
  have B: "epochs_run sm \<le> nat n_epochs \<and>
               (\<forall>k < epochs_run sm - 1. int (streak ?v k) < p) \<and>
               (should_early_stop (final_es sm) \<longrightarrow>
                  0 < epochs_run sm \<and> int (streak ?v (epochs_run sm - 1)) = p) \<and>
               (\<not> should_early_stop (final_es sm) \<longrightarrow>
                  epochs_run sm = nat n_epochs \<and>
                  (\<forall>k < nat n_epochs. int (streak ?v k) < p)) \<and>
               (0 < epochs_run sm \<longrightarrow>
                  count_es (final_es sm) = int (streak ?v (epochs_run sm - 1))) \<and>
               \<not> warned sm"
    if h: "rv \<and> vd \<noteq> None \<and> patience s = Some p \<and> 0 < p"
  proof -
    have pat: "patience s = Some p" "0 < p" using h by auto
    from lp h have lp': "epoch_loop s e True True [0..<nat n_epochs] es_init 0 = Inr (n, es)"
      by simp
    have "0 \<le> n \<and> n \<le> nat n_epochs \<and>
         (\<forall>k < n - 1. int (streak ?v k) < p) \<and>
         (should_early_stop es \<longrightarrow> 0 < n \<and> int (streak ?v (n - 1)) = p) \<and>
         (\<not> should_early_stop es \<longrightarrow> n = nat n_epochs \<and>
            (\<forall>k < nat n_epochs. int (streak ?v k) < p)) \<and>
         (0 < n \<longrightarrow> count_es es = int (streak ?v (n - 1)))"
      by (rule epoch_loop_lead [OF pat _ _ _ _ _ assms(2) lp']) (simp_all add: es_init_def)
    with h show ?thesis by (simp add: sm_def)
  qed
  have C: "epochs_run sm = nat n_epochs \<and>
               \<not> should_early_stop (final_es sm) \<and>
               count_es (final_es sm) = 0 \<and>
               (warned sm \<longleftrightarrow> truthy (patience s))"
    if h: "\<not> truthy (patience s) \<or> \<not> (rv \<and> vd \<noteq> None)"
  proof -
    have "epoch_loop s e True ?val [0..<nat n_epochs] es_init 0 =
        Inr (0 + length [0..<nat n_epochs], es_init)"
      by (rule epoch_loop_no_stop) (use h assms(2) in \<open>auto simp: es_init_def\<close>)
    with lp have "n = nat n_epochs" "es = es_init" by simp_all
    with h show ?thesis by (auto simp: sm_def es_init_def)
  qed
  from fd B C have "\<exists>sm s'. fit_data e r n_epochs vd rv uv s = (Inr sm, s') \<and>
            (rv \<and> vd \<noteq> None \<and> patience s = Some p \<and> 0 < p \<longrightarrow>
               epochs_run sm \<le> nat n_epochs \<and>
               (\<forall>k < epochs_run sm - 1. int (streak ?v k) < p) \<and>
               (should_early_stop (final_es sm) \<longrightarrow>
                  0 < epochs_run sm \<and> int (streak ?v (epochs_run sm - 1)) = p) \<and>
               (\<not> should_early_stop (final_es sm) \<longrightarrow>
                  epochs_run sm = nat n_epochs \<and>
                  (\<forall>k < nat n_epochs. int (streak ?v k) < p)) \<and>
               (0 < epochs_run sm \<longrightarrow>
                  count_es (final_es sm) = int (streak ?v (epochs_run sm - 1))) \<and>
               \<not> warned sm) \<and>
            (\<not> truthy (patience s) \<or> \<not> (rv \<and> vd \<noteq> None) \<longrightarrow>
               epochs_run sm = nat n_epochs \<and>
               \<not> should_early_stop (final_es sm) \<and>
               count_es (final_es sm) = 0 \<and>
               (warned sm \<longleftrightarrow> truthy (patience s)))"
    by (intro exI [of _ sm] exI [of _ s']) blast
  with A show ?thesis by (rule conjI)
qed

theorem C2_early_stopping_witness:
  "has_end_epoch (logger example_built_engine) \<and>
   patience (example_built_engine\<lparr>patience := Some 2\<rparr>) = Some 2 \<and> (0::int) < 2 \<and>
   fst (fit_data example_env (Some 0) 5 (Some VDataset) True True
          (example_built_engine\<lparr>patience := Some 2\<rparr>)) =
     Inr \<lparr>epochs_run = 3,
          final_es = \<lparr>count_es = 2, last_val_loss = Some 2, should_early_stop = True\<rparr>,
          warned = False\<rparr> \<and>
   int (streak (val_loss_at example_env) (3 - 1)) = 2 \<and>
   int (streak (val_loss_at example_env) 0) < 2 \<and>
   int (streak (val_loss_at example_env) 1) < 2 \<and>
   \<not> truthy (patience (example_built_engine\<lparr>patience := None\<rparr>)) \<and>
   (\<exists>sm s'. fit_data example_env (Some 0) 5 (Some VDataset) True True
               (example_built_engine\<lparr>patience := None\<rparr>) = (Inr sm, s') \<and>
            epochs_run sm = 5 \<and> \<not> should_early_stop (final_es sm))"
proof -
  let ?s = "example_built_engine\<lparr>patience := Some 2\<rparr>"
  let ?t = "example_built_engine\<lparr>patience := None\<rparr>"
  have lg: "has_end_epoch (logger ?s)" "has_end_epoch (logger ?t)"
    "has_end_epoch (logger example_built_engine)"
    by (simp_all add: example_built_engine_def has_end_epoch_def)
  have v: "\<not> (True \<and> Some VDataset = None)" by simp
  have p: "patience ?s = Some 2" by simp
  have f: "\<not> truthy (patience ?t)" by (simp add: truthy_def)
  have run: "fst (fit_data example_env (Some 0) 5 (Some VDataset) True True ?s) =
     Inr \<lparr>epochs_run = 3,
          final_es = \<lparr>count_es = 2, last_val_loss = Some 2, should_early_stop = True\<rparr>,
          warned = False\<rparr>"
    by (simp add: fit_data_def example_env_def example_built_engine_def
      default_autoencoder_def es_init_def early_stopping_step_def loss_went_up_def truthy_def
      has_end_epoch_def upt_rec Let_def)
  from C2_early_stopping [OF refl lg(1) v, of example_env 5 True 2] p run
  have a: "int (streak (val_loss_at example_env) (3 - 1)) = 2"
    "\<forall>k < 3 - 1. int (streak (val_loss_at example_env) k) < 2"
    by auto
  from a(2) have c: "int (streak (val_loss_at example_env) 0) < 2"
    "int (streak (val_loss_at example_env) 1) < 2"
    by simp_all
  from C2_early_stopping [OF refl lg(2) v, of example_env 5 True 2] f
  have b: "\<exists>sm s'. fit_data example_env (Some 0) 5 (Some VDataset) True True ?t = (Inr sm, s') \<and>
            epochs_run sm = 5 \<and> \<not> should_early_stop (final_es sm)"
    by auto
  from lg(3) p f run a(1) b c show ?thesis by simp
qed

subsection \<open>Anomaly scoring in batches\<close>


















end
